theory Spec2Isabelle
  imports Main
begin

section \<open>Findings and the summary counters\<close>

text \<open>
  A finding is a Python dict from field names to values.  The values are those a session
  exported with \<open>json.dump\<close> can hold in a field: \<open>None\<close>, a boolean, an integer or a
  string.  The scanner reads the fields \<open>status\<close> and \<open>severity\<close> and calls \<open>upper\<close> on
  both; only a string has that method.  Strings are byte lists, and \<open>upper\<close> is modelled
  on the ASCII letters, where it agrees with \<open>str.upper\<close>.
\<close>

datatype pyval = PyNone | PyBool bool | PyInt int | PyStr string

type_synonym finding = "string \<rightharpoonup> pyval"

text \<open>
  The exceptions of the model: a missing dict key, a method missing on a value, a markup
  error of the console, and the exceptions a test raises, those below \<open>Exception\<close> and
  those below \<open>BaseException\<close> only (\<open>KeyboardInterrupt\<close>, \<open>SystemExit\<close>), with their
  message.
\<close>

datatype pyerr =
    KeyError
  | AttributeError
  | MarkupError
  | TestException string
  | TestBaseException string

definition upper_char :: "char \<Rightarrow> char" where
  "upper_char c =
     (case map_of (zip ''abcdefghijklmnopqrstuvwxyz'' ''ABCDEFGHIJKLMNOPQRSTUVWXYZ'') c of
        Some u \<Rightarrow> u
      | None \<Rightarrow> c)"

definition upper :: "string \<Rightarrow> string" where
  "upper s = map upper_char s"

text \<open>
  \<^verbatim>\<open>result.get(key, "").upper()\<close>: a missing key reads as the empty string; a value that
  is not a string raises \<open>AttributeError\<close>.
\<close>

definition get_upper :: "finding \<Rightarrow> string \<Rightarrow> pyerr + string" where
  "get_upper result key =
     (case result key of
        None \<Rightarrow> Inr (upper [])
      | Some (PyStr s) \<Rightarrow> Inr (upper s)
      | Some _ \<Rightarrow> Inl AttributeError)"

record summary_counts =
  total_tests :: int
  vulnerabilities_found :: int
  critical :: int
  high :: int
  medium :: int
  low :: int
  info :: int
  passed :: int

definition initial_summary :: summary_counts where
  "initial_summary =
     \<lparr>total_tests = 0, vulnerabilities_found = 0, critical = 0, high = 0,
      medium = 0, low = 0, info = 0, passed = 0\<rparr>"

text \<open>
  The body of the loop in \<open>add_results\<close>, for one result: both fields are read before any
  counter is raised.
\<close>

definition count_result :: "summary_counts \<Rightarrow> finding \<Rightarrow> pyerr + summary_counts" where
  "count_result sm result =
     (case get_upper result ''status'' of
        Inl e \<Rightarrow> Inl e
      | Inr status \<Rightarrow>
         (case get_upper result ''severity'' of
            Inl e \<Rightarrow> Inl e
          | Inr severity \<Rightarrow>
             Inr (if status = ''VULNERABLE'' then
                    (let sm1 = sm\<lparr>vulnerabilities_found := vulnerabilities_found sm + 1\<rparr>
                     in if severity = ''CRITICAL'' then sm1\<lparr>critical := critical sm1 + 1\<rparr>
                        else if severity = ''HIGH'' then sm1\<lparr>high := high sm1 + 1\<rparr>
                        else if severity = ''MEDIUM'' then sm1\<lparr>medium := medium sm1 + 1\<rparr>
                        else if severity = ''LOW'' then sm1\<lparr>low := low sm1 + 1\<rparr>
                        else sm1)
                  else if status = ''INFO'' then sm\<lparr>info := info sm + 1\<rparr>
                  else if status = ''PASSED'' then sm\<lparr>passed := passed sm + 1\<rparr>
                  else sm)))"

text \<open>
  The loop.  The counters are raised in place, so an exception leaves them as the results
  before it made them.
\<close>

fun count_results :: "summary_counts \<Rightarrow> finding list \<Rightarrow> pyerr option \<times> summary_counts" where
  "count_results sm [] = (None, sm)"
| "count_results sm (result # rest) =
     (case count_result sm result of
        Inl e \<Rightarrow> (Some e, sm)
      | Inr sm' \<Rightarrow> count_results sm' rest)"

section \<open>Clock readings and the default scan id\<close>

text \<open>
  A value of Python's \<open>datetime\<close> class, as \<open>datetime.now()\<close> returns it.  The class keeps
  every field in its calendar range (\<open>valid_datetime\<close>).
\<close>

record datetime =
  year :: nat
  month :: nat
  day :: nat
  hour :: nat
  minute :: nat
  second :: nat
  microsecond :: nat

definition valid_datetime :: "datetime \<Rightarrow> bool" where
  "valid_datetime t \<longleftrightarrow>
     1 \<le> year t \<and> year t \<le> 9999 \<and> 1 \<le> month t \<and> month t \<le> 12 \<and>
     1 \<le> day t \<and> day t \<le> 31 \<and> hour t \<le> 23 \<and> minute t \<le> 59 \<and>
     second t \<le> 59 \<and> microsecond t \<le> 999999"

definition digit :: "nat \<Rightarrow> char" where
  "digit d = ''0123456789'' ! (d mod 10)"

text \<open>Zero-padded decimal fields of width two and four, for values in a datetime's range.\<close>

definition pad2 :: "nat \<Rightarrow> string" where
  "pad2 n = [digit (n div 10), digit n]"

definition pad4 :: "nat \<Rightarrow> string" where
  "pad4 n = [digit (n div 1000), digit (n div 100), digit (n div 10), digit n]"

text \<open>\<^verbatim>\<open>strftime("%Y%m%d_%H%M%S")\<close>\<close>

definition strftime_id :: "datetime \<Rightarrow> string" where
  "strftime_id t =
     pad4 (year t) @ pad2 (month t) @ pad2 (day t) @ ''_'' @
     pad2 (hour t) @ pad2 (minute t) @ pad2 (second t)"

section \<open>The object store and the scan session\<close>

text \<open>
  The result list and the summary dict of a session are mutable objects: \<open>add_results\<close>
  updates them in place and \<open>to_dict\<close> hands out references to them.  The store keeps the
  list objects and the dict objects by address; a session holds the two addresses.
\<close>

type_synonym addr = nat

record heap =
  list_objs :: "addr \<Rightarrow> finding list"
  dict_objs :: "addr \<Rightarrow> summary_counts"
  next_addr :: addr

definition empty_heap :: heap where
  "empty_heap = \<lparr>list_objs = (\<lambda>_. []), dict_objs = (\<lambda>_. initial_summary), next_addr = 0\<rparr>"

definition new_list :: "finding list \<Rightarrow> heap \<Rightarrow> addr \<times> heap" where
  "new_list v h =
     (next_addr h,
      h\<lparr>list_objs := (list_objs h)(next_addr h := v), next_addr := Suc (next_addr h)\<rparr>)"

definition new_dict :: "summary_counts \<Rightarrow> heap \<Rightarrow> addr \<times> heap" where
  "new_dict v h =
     (next_addr h,
      h\<lparr>dict_objs := (dict_objs h)(next_addr h := v), next_addr := Suc (next_addr h)\<rparr>)"

record session =
  target_url :: string
  scan_id :: string
  start_time :: datetime
  end_time :: "datetime option"
  results :: addr
  summary :: addr

text \<open>
  \<open>ScanSession.__init__\<close>.  \<open>scan_id or datetime.now().strftime(...)\<close> takes the
  caller's id unless it is \<open>None\<close> or empty; \<open>now_id\<close> and \<open>now_start\<close> are the two clock
  readings of the constructor.
\<close>

definition ScanSession_init ::
  "string \<Rightarrow> string option \<Rightarrow> datetime \<Rightarrow> datetime \<Rightarrow> heap \<Rightarrow> session \<times> heap" where
  "ScanSession_init url sid now_id now_start h =
     (let (r, h1) = new_list [] h;
          (d, h2) = new_dict initial_summary h1
      in (\<lparr>target_url = url,
           scan_id = (case sid of
                        None \<Rightarrow> strftime_id now_id
                      | Some s \<Rightarrow> if s = [] then strftime_id now_id else s),
           start_time = now_start,
           end_time = None,
           results = r,
           summary = d\<rparr>, h2))"

text \<open>
  The argument of \<open>add_results\<close> is a list object: either the session's own result list or
  another list, given by its items.  Only the session's own list is written by the call,
  so another list can be taken by value.
\<close>

datatype list_arg = Session_results | List_of "finding list"

text \<open>
  \<open>ScanSession.add_results\<close>.  The result list is extended in place first; then
  \<open>len(test_results)\<close> is read and \<open>test_results\<close> is iterated, which is the extended list
  when the argument is the session's own list.  \<open>total_tests\<close> is raised before the loop, so
  an exception in the loop leaves the longer list, the raised total and the counters
  reached so far.  The attributes of the session object itself are not written; the result
  is the exception raised, if any, and the new store.
\<close>

definition add_results :: "session \<Rightarrow> list_arg \<Rightarrow> heap \<Rightarrow> pyerr option \<times> heap" where
  "add_results self arg h =
     (let old = list_objs h (results self);
          h1 = h\<lparr>list_objs := (list_objs h)(results self :=
                  old @ (case arg of Session_results \<Rightarrow> old | List_of b \<Rightarrow> b))\<rparr>;
          test_results =
            (case arg of Session_results \<Rightarrow> list_objs h1 (results self) | List_of b \<Rightarrow> b);
          sm = dict_objs h1 (summary self);
          sm1 = sm\<lparr>total_tests := total_tests sm + int (length test_results)\<rparr>;
          (err, sm2) = count_results sm1 test_results
      in (err, h1\<lparr>dict_objs := (dict_objs h1)(summary self := sm2)\<rparr>))"

text \<open>\<open>ScanSession.finalize\<close>, with the clock reading \<open>now\<close>.\<close>

definition finalize :: "datetime \<Rightarrow> session \<Rightarrow> session" where
  "finalize now self = self\<lparr>end_time := Some now\<rparr>"

text \<open>
  \<open>ScanSession.get_duration\<close> and \<open>to_dict\<close>.  The texts that \<open>isoformat\<close> and the
  two-decimal rendering of the elapsed seconds produce are kept symbolic: the snapshot
  holds the datetime values they are computed from.  The entries \<open>summary\<close> and \<open>results\<close>
  of the dict are the session's own objects, that is, their addresses.
\<close>

datatype duration = In_progress | Elapsed datetime datetime

definition get_duration :: "session \<Rightarrow> duration" where
  "get_duration self =
     (case end_time self of
        Some e \<Rightarrow> Elapsed (start_time self) e
      | None \<Rightarrow> In_progress)"

record snapshot =
  snap_scan_id :: string
  snap_target_url :: string
  snap_start_time :: datetime
  snap_end_time :: "datetime option"
  snap_duration :: duration
  snap_summary :: addr
  snap_results :: addr

definition to_dict :: "session \<Rightarrow> snapshot" where
  "to_dict self =
     \<lparr>snap_scan_id = scan_id self,
      snap_target_url = target_url self,
      snap_start_time = start_time self,
      snap_end_time = end_time self,
      snap_duration = get_duration self,
      snap_summary = summary self,
      snap_results = results self\<rparr>"

text \<open>What a reader of a snapshot sees in a given store.\<close>

definition read_summary :: "snapshot \<Rightarrow> heap \<Rightarrow> summary_counts" where
  "read_summary snap h = dict_objs h (snap_summary snap)"

definition read_results :: "snapshot \<Rightarrow> heap \<Rightarrow> finding list" where
  "read_results snap h = list_objs h (snap_results snap)"

section \<open>Running a scan\<close>

text \<open>
  The test classes (\<open>tests.vulnerability_tests.ALL_TESTS\<close>) are parameters of the scanner.
  Constructing a test may raise (\<open>init_raises\<close>).  Of a constructed test the scanner uses
  its \<open>name\<close> and the outcome of \<open>run(target_url, headers)\<close>: a list of findings, an
  exception below \<open>Exception\<close> with its message, or one below \<open>BaseException\<close> only.
\<close>

datatype outcome = Returns "finding list" | Raises string | Raises_base string

record test_class =
  init_raises :: "pyerr option"
  name :: string
  category :: string
  run :: "string \<Rightarrow> (string \<rightharpoonup> string) \<Rightarrow> outcome"



text \<open>
  The lines \<open>run_scan\<close> sends to the console, in order: the banner, the target, the scan
  id, the number of tests, and for each test the task added to the progress display, then
  the count of issues, the pass mark or the message of the exception caught.
\<close>

datatype event =
    Starting
  | Target_line string
  | Scan_id_line string
  | Tests_line nat
  | Running string
  | Found_issues nat
  | Passed_ok
  | Error_msg pyerr

text \<open>
  The console renders a line as markup and raises \<open>MarkupError\<close> on a closing tag that
  matches no open tag.  A line whose interpolated text holds no opening bracket always
  renders; for the other lines the console is a parameter, \<open>renders\<close>, of the scan.  The
  scan id is made of digits and an underscore, and the message of an \<open>AttributeError\<close>
  holds no bracket.
\<close>

definition plain :: "string \<Rightarrow> bool" where
  "plain s \<longleftrightarrow> CHR ''['' \<notin> set s"

fun bracketed :: "event \<Rightarrow> bool" where
  "bracketed (Target_line url) = (\<not> plain url)"
| "bracketed (Running n) = (\<not> plain n)"
| "bracketed (Error_msg (TestException m)) = (\<not> plain m)"
| "bracketed (Error_msg (TestBaseException m)) = (\<not> plain m)"
| "bracketed _ = False"

definition prints :: "(event \<Rightarrow> bool) \<Rightarrow> event \<Rightarrow> bool" where
  "prints renders ev \<longleftrightarrow> \<not> bracketed ev \<or> renders ev"

text \<open>
  The \<open>except Exception\<close> branch of the loop: the message is printed; a markup error of
  that print leaves the handler as an exception of its own.
\<close>

definition handle_exception ::
  "(event \<Rightarrow> bool) \<Rightarrow> string \<Rightarrow> pyerr \<Rightarrow> heap \<Rightarrow> pyerr option \<times> heap \<times> event list" where
  "handle_exception renders n e h =
     (if prints renders (Error_msg e) then (None, h, [Running n, Error_msg e])
      else (Some MarkupError, h, [Running n]))"

text \<open>
  The body of the loop of \<open>run_scan\<close> for one test class.  The test is constructed and
  its task added to the progress display outside the \<open>try\<close>; \<open>test.run\<close> and
  \<open>add_results\<close> are inside it.  The result is the exception that leaves the body, if any,
  the store, and the lines printed.
\<close>

definition run_test ::
  "(event \<Rightarrow> bool) \<Rightarrow> session \<Rightarrow> string \<Rightarrow> (string \<rightharpoonup> string) \<Rightarrow> test_class \<Rightarrow> heap
     \<Rightarrow> pyerr option \<times> heap \<times> event list" where
  "run_test renders session url headers test h =
     (case init_raises test of
        Some e \<Rightarrow> (Some e, h, [])
      | None \<Rightarrow>
          if \<not> prints renders (Running (name test)) then (Some MarkupError, h, [])
          else
            (case run test url headers of
               Returns rs \<Rightarrow>
                 (case add_results session (List_of rs) h of
                    (None, h1) \<Rightarrow>
                      (let vulnerable_count =
                             length (filter (\<lambda>r. r ''status'' = Some (PyStr ''VULNERABLE'')) rs)
                       in (None, h1,
                           [Running (name test),
                            if vulnerable_count > 0 then Found_issues vulnerable_count
                            else Passed_ok]))
                  | (Some e, h1) \<Rightarrow> handle_exception renders (name test) e h1)
             | Raises m \<Rightarrow> handle_exception renders (name test) (TestException m) h
             | Raises_base m \<Rightarrow> (Some (TestBaseException m), h, [Running (name test)])))"




section \<open>Risk score\<close>

text \<open>
  \<open>calculate_risk_score\<close> takes any dict of counts and reads four keys with the default 0.
\<close>

definition get_int :: "(string \<rightharpoonup> int) \<Rightarrow> string \<Rightarrow> int \<Rightarrow> int" where
  "get_int d k dflt = (case d k of None \<Rightarrow> dflt | Some v \<Rightarrow> v)"

definition weights :: "string \<rightharpoonup> int" where
  "weights = [''critical'' \<mapsto> 25, ''high'' \<mapsto> 15, ''medium'' \<mapsto> 8, ''low'' \<mapsto> 3]"

text \<open>\<open>weights[k]\<close> for a key of the literal above.\<close>

definition weight :: "string \<Rightarrow> int" where
  "weight k = (case weights k of Some w \<Rightarrow> w | None \<Rightarrow> 0)"

definition calculate_risk_score :: "(string \<rightharpoonup> int) \<Rightarrow> int" where
  "calculate_risk_score summary_dict =
     (let score0 = 0;
          score1 = score0 + get_int summary_dict ''critical'' 0 * weight ''critical'';
          score2 = score1 + get_int summary_dict ''high'' 0 * weight ''high'';
          score3 = score2 + get_int summary_dict ''medium'' 0 * weight ''medium'';
          score4 = score3 + get_int summary_dict ''low'' 0 * weight ''low''
      in min score4 100)"

definition get_risk_level :: "int \<Rightarrow> string" where
  "get_risk_level score =
     (if score \<ge> 75 then ''CRITICAL''
      else if score \<ge> 50 then ''HIGH''
      else if score \<ge> 25 then ''MEDIUM''
      else ''LOW'')"

text \<open>The summary dict of a session, as a dict of counts.\<close>

definition as_dict :: "summary_counts \<Rightarrow> (string \<rightharpoonup> int)" where
  "as_dict sm =
     [''total_tests'' \<mapsto> total_tests sm,
      ''vulnerabilities_found'' \<mapsto> vulnerabilities_found sm,
      ''critical'' \<mapsto> critical sm, ''high'' \<mapsto> high sm, ''medium'' \<mapsto> medium sm,
      ''low'' \<mapsto> low sm, ''info'' \<mapsto> info sm, ''passed'' \<mapsto> passed sm]"

section \<open>Recounting a result list\<close>

text \<open>
  A finding is well typed when its status and its severity are strings or missing, so
  that \<open>add_results\<close> can read both.
\<close>

definition str_or_absent :: "pyval option \<Rightarrow> bool" where
  "str_or_absent v = (case v of None \<Rightarrow> True | Some (PyStr s) \<Rightarrow> True | Some _ \<Rightarrow> False)"

definition well_typed :: "finding \<Rightarrow> bool" where
  "well_typed f \<longleftrightarrow> str_or_absent (f ''status'') \<and> str_or_absent (f ''severity'')"

text \<open>
  The status and the severity of a finding as \<open>add_results\<close> reads them, and the counts of
  a result list under that reading.
\<close>

definition status_read :: "finding \<Rightarrow> pyerr + string" where
  "status_read f = get_upper f ''status''"

definition severity_read :: "finding \<Rightarrow> pyerr + string" where
  "severity_read f = get_upper f ''severity''"

definition count_status :: "string \<Rightarrow> finding list \<Rightarrow> int" where
  "count_status st rs = int (length (filter (\<lambda>f. status_read f = Inr st) rs))"

definition count_severity :: "string \<Rightarrow> finding list \<Rightarrow> int" where
  "count_severity sv rs =
     int (length (filter (\<lambda>f. status_read f = Inr ''VULNERABLE'' \<and> severity_read f = Inr sv) rs))"

definition summary_of :: "finding list \<Rightarrow> summary_counts" where
  "summary_of rs =
     \<lparr>total_tests = int (length rs),
      vulnerabilities_found = count_status ''VULNERABLE'' rs,
      critical = count_severity ''CRITICAL'' rs,
      high = count_severity ''HIGH'' rs,
      medium = count_severity ''MEDIUM'' rs,
      low = count_severity ''LOW'' rs,
      info = count_status ''INFO'' rs,
      passed = count_status ''PASSED'' rs\<rparr>"

text \<open>
  The specification's summary of a result list: each counter is the number of findings
  whose \<open>status\<close> field (and, for the severities, whose \<open>severity\<close> field) is that value.
  A finding is in the data model's form when its status is one of the four statuses or
  missing and its severity is one of the five severities or missing.
\<close>

definition spec_count_status :: "string \<Rightarrow> finding list \<Rightarrow> int" where
  "spec_count_status st rs = int (length (filter (\<lambda>f. f ''status'' = Some (PyStr st)) rs))"

definition spec_count_severity :: "string \<Rightarrow> finding list \<Rightarrow> int" where
  "spec_count_severity sv rs =
     int (length (filter (\<lambda>f. f ''status'' = Some (PyStr ''VULNERABLE'') \<and>
                              f ''severity'' = Some (PyStr sv)) rs))"

definition spec_summary :: "finding list \<Rightarrow> summary_counts" where
  "spec_summary rs =
     \<lparr>total_tests = int (length rs),
      vulnerabilities_found = spec_count_status ''VULNERABLE'' rs,
      critical = spec_count_severity ''CRITICAL'' rs,
      high = spec_count_severity ''HIGH'' rs,
      medium = spec_count_severity ''MEDIUM'' rs,
      low = spec_count_severity ''LOW'' rs,
      info = spec_count_status ''INFO'' rs,
      passed = spec_count_status ''PASSED'' rs\<rparr>"

definition data_model_finding :: "finding \<Rightarrow> bool" where
  "data_model_finding f \<longleftrightarrow>
     f ''status'' \<in> {None, Some (PyStr ''VULNERABLE''), Some (PyStr ''PASSED''),
                      Some (PyStr ''INFO''), Some (PyStr ''ERROR'')} \<and>
     f ''severity'' \<in> {None, Some (PyStr ''CRITICAL''), Some (PyStr ''HIGH''),
                        Some (PyStr ''MEDIUM''), Some (PyStr ''LOW''), Some (PyStr ''INFO'')}"

text \<open>
  A sequence of \<open>add_results\<close> calls on one session, one argument per call.  A caller
  that catches the exception of a call, as \<open>run_scan\<close> does, goes on with the store the
  call left.
\<close>

fun add_results_calls :: "session \<Rightarrow> list_arg list \<Rightarrow> heap \<Rightarrow> heap" where
  "add_results_calls self [] h = h"
| "add_results_calls self (a # as) h = add_results_calls self as (snd (add_results self a h))"

text \<open>The counters of \<open>sm\<close> raised by the counts of a batch; \<open>total_tests\<close> is kept.\<close>

definition add_counts :: "summary_counts \<Rightarrow> finding list \<Rightarrow> summary_counts" where
  "add_counts sm b =
     \<lparr>total_tests = total_tests sm,
      vulnerabilities_found = vulnerabilities_found sm + count_status ''VULNERABLE'' b,
      critical = critical sm + count_severity ''CRITICAL'' b,
      high = high sm + count_severity ''HIGH'' b,
      medium = medium sm + count_severity ''MEDIUM'' b,
      low = low sm + count_severity ''LOW'' b,
      info = info sm + count_status ''INFO'' b,
      passed = passed sm + count_status ''PASSED'' b\<rparr>"

definition consistent :: "session \<Rightarrow> heap \<Rightarrow> bool" where
  "consistent self h \<longleftrightarrow>
     dict_objs h (summary self) = summary_of (list_objs h (results self))"


section \<open>Reading a scan\<close>










definition same_second :: "datetime \<Rightarrow> datetime \<Rightarrow> bool" where
  "same_second a b \<longleftrightarrow>
     year a = year b \<and> month a = month b \<and> day a = day b \<and>
     hour a = hour b \<and> minute a = minute b \<and> second a = second b"

section \<open>Example data\<close>

definition t_first :: datetime where
  "t_first = \<lparr>year = 2024, month = 3, day = 9, hour = 7, minute = 5, second = 1, microsecond = 120\<rparr>"

definition t_same_second :: datetime where
  "t_same_second = \<lparr>year = 2024, month = 3, day = 9, hour = 7, minute = 5, second = 1, microsecond = 990000\<rparr>"

definition t_later :: datetime where
  "t_later = \<lparr>year = 2024, month = 3, day = 9, hour = 7, minute = 5, second = 42, microsecond = 7\<rparr>"

definition passed_finding :: finding where
  "passed_finding = [''test'' \<mapsto> PyStr ''Broken Authentication'', ''status'' \<mapsto> PyStr ''PASSED'']"

definition vulnerable_high_finding :: finding where
  "vulnerable_high_finding = [''status'' \<mapsto> PyStr ''VULNERABLE'', ''severity'' \<mapsto> PyStr ''HIGH'']"

definition vulnerable_info_finding :: finding where
  "vulnerable_info_finding = [''status'' \<mapsto> PyStr ''VULNERABLE'', ''severity'' \<mapsto> PyStr ''INFO'']"

definition error_finding :: finding where
  "error_finding = [''status'' \<mapsto> PyStr ''ERROR'', ''description'' \<mapsto> PyStr ''connection refused'']"

definition passed_no_severity_finding :: finding where
  "passed_no_severity_finding = [''status'' \<mapsto> PyStr ''PASSED'', ''severity'' \<mapsto> PyNone]"

definition demo_session :: session where
  "demo_session = fst (ScanSession_init ''https://api.example.com'' None t_first t_first empty_heap)"

definition demo_heap :: heap where
  "demo_heap = snd (ScanSession_init ''https://api.example.com'' None t_first t_first empty_heap)"













section \<open>The risk score\<close>

lemma calculate_risk_score_eq:
  "calculate_risk_score s =
     min (get_int s ''critical'' 0 * 25 + get_int s ''high'' 0 * 15 +
          get_int s ''medium'' 0 * 8 + get_int s ''low'' 0 * 3) 100"
  by (simp add: calculate_risk_score_def weight_def weights_def)

lemma get_int_upd_same: "get_int (s(k \<mapsto> v)) k d = v"
  by (simp add: get_int_def)

lemma get_int_upd_other: "k' \<noteq> k \<Longrightarrow> get_int (s(k \<mapsto> v)) k' d = get_int s k' d"
  by (simp add: get_int_def)

lemma score_mono_critical:
  "v \<le> v' \<Longrightarrow>
   calculate_risk_score (s(''critical'' \<mapsto> v)) \<le> calculate_risk_score (s(''critical'' \<mapsto> v'))"
  by (simp add: calculate_risk_score_eq get_int_upd_same get_int_upd_other)

lemma score_mono_high:
  "v \<le> v' \<Longrightarrow>
   calculate_risk_score (s(''high'' \<mapsto> v)) \<le> calculate_risk_score (s(''high'' \<mapsto> v'))"
  by (simp add: calculate_risk_score_eq get_int_upd_same get_int_upd_other)

lemma score_mono_medium:
  "v \<le> v' \<Longrightarrow>
   calculate_risk_score (s(''medium'' \<mapsto> v)) \<le> calculate_risk_score (s(''medium'' \<mapsto> v'))"
  by (simp add: calculate_risk_score_eq get_int_upd_same get_int_upd_other)

lemma score_mono_low:
  "v \<le> v' \<Longrightarrow>
   calculate_risk_score (s(''low'' \<mapsto> v)) \<le> calculate_risk_score (s(''low'' \<mapsto> v'))"
  by (simp add: calculate_risk_score_eq get_int_upd_same get_int_upd_other)

lemma risk_score_of_summary:
  "calculate_risk_score (as_dict sm)
     = min (critical sm * 25 + high sm * 15 + medium sm * 8 + low sm * 3) 100"
  by (simp add: calculate_risk_score_eq as_dict_def get_int_def)

text \<open>
  Claim C2.  For every summary dict the risk score is the weighted sum
  critical * 25 + high * 15 + medium * 8 + low * 3 (a missing count reads as 0), capped at
  100.  The level of a score is CRITICAL exactly from 75 on, HIGH from 50 to 74, MEDIUM
  from 25 to 49 and LOW below 25.  The summary with one critical and one high finding
  scores 40, level MEDIUM; the summary with three critical findings scores 75, level
  CRITICAL.
\<close>

theorem risk_score_weighted_sum_and_level:
  "calculate_risk_score s =
     min (get_int s ''critical'' 0 * 25 + get_int s ''high'' 0 * 15 +
          get_int s ''medium'' 0 * 8 + get_int s ''low'' 0 * 3) 100
   \<and> (get_risk_level x = ''CRITICAL'' \<longleftrightarrow> x \<ge> 75)
   \<and> (get_risk_level x = ''HIGH'' \<longleftrightarrow> 50 \<le> x \<and> x < 75)
   \<and> (get_risk_level x = ''MEDIUM'' \<longleftrightarrow> 25 \<le> x \<and> x < 50)
   \<and> (get_risk_level x = ''LOW'' \<longleftrightarrow> x < 25)
   \<and> calculate_risk_score
        [''critical'' \<mapsto> 1, ''high'' \<mapsto> 1, ''medium'' \<mapsto> 0, ''low'' \<mapsto> 0] = 40
   \<and> get_risk_level
        (calculate_risk_score
          [''critical'' \<mapsto> 1, ''high'' \<mapsto> 1, ''medium'' \<mapsto> 0, ''low'' \<mapsto> 0]) = ''MEDIUM''
   \<and> calculate_risk_score [''critical'' \<mapsto> 3] = 75
   \<and> get_risk_level (calculate_risk_score [''critical'' \<mapsto> 3]) = ''CRITICAL''"
proof -
  have ex1: "calculate_risk_score
        [''critical'' \<mapsto> 1, ''high'' \<mapsto> 1, ''medium'' \<mapsto> 0, ''low'' \<mapsto> 0] = 40"
    by (simp add: calculate_risk_score_eq get_int_def)
  have ex2: "calculate_risk_score [''critical'' \<mapsto> 3] = 75"
    by (simp add: calculate_risk_score_eq get_int_def)
  have lv: "(get_risk_level x = ''CRITICAL'' \<longleftrightarrow> x \<ge> 75)
     \<and> (get_risk_level x = ''HIGH'' \<longleftrightarrow> 50 \<le> x \<and> x < 75)
     \<and> (get_risk_level x = ''MEDIUM'' \<longleftrightarrow> 25 \<le> x \<and> x < 50)
     \<and> (get_risk_level x = ''LOW'' \<longleftrightarrow> x < 25)"
    by (simp add: get_risk_level_def)
  have l1: "get_risk_level 40 = ''MEDIUM''" by (simp add: get_risk_level_def)
  have l2: "get_risk_level 75 = ''CRITICAL''" by (simp add: get_risk_level_def)
  show ?thesis
    using calculate_risk_score_eq [of s] lv by (simp only: ex1 ex2 l1 l2)
qed

text \<open>
  Claim C7.  The risk score never exceeds 100, and raising any one of the counts
  critical, high, medium or low, the other entries fixed, never lowers it.
\<close>

theorem risk_score_monotone_bounded:
  "calculate_risk_score s \<le> 100
   \<and> (k \<in> {''critical'', ''high'', ''medium'', ''low''} \<longrightarrow> v \<le> v' \<longrightarrow>
        calculate_risk_score (s(k \<mapsto> v)) \<le> calculate_risk_score (s(k \<mapsto> v')))"
proof -
  have "calculate_risk_score s \<le> 100"
    by (simp add: calculate_risk_score_eq)
  moreover have "k \<in> {''critical'', ''high'', ''medium'', ''low''} \<longrightarrow> v \<le> v' \<longrightarrow>
        calculate_risk_score (s(k \<mapsto> v)) \<le> calculate_risk_score (s(k \<mapsto> v'))"
    using score_mono_critical score_mono_high score_mono_medium score_mono_low by blast
  ultimately show ?thesis by blast
qed

theorem risk_score_monotone_bounded_witness:
  "''high'' \<in> {''critical'', ''high'', ''medium'', ''low''} \<and> (2::int) \<le> 5
   \<and> calculate_risk_score ([''critical'' \<mapsto> 1](''high'' \<mapsto> 2)) = 55
   \<and> calculate_risk_score ([''critical'' \<mapsto> 1](''high'' \<mapsto> 5)) = 100
   \<and> calculate_risk_score ([''critical'' \<mapsto> 1](''high'' \<mapsto> 2))
        \<le> calculate_risk_score ([''critical'' \<mapsto> 1](''high'' \<mapsto> 5))"
  using risk_score_monotone_bounded [of "[''critical'' \<mapsto> 1]" "''high''" 2 5]
  by (simp add: calculate_risk_score_eq get_int_def)

section \<open>The counting loop\<close>

lemma upper_Nil: "upper [] = []"
  by (simp add: upper_def)

lemma get_upper_well_typed:
  "str_or_absent (f k) \<Longrightarrow> \<exists>s. get_upper f k = Inr s"
  by (auto simp: str_or_absent_def get_upper_def split: option.splits pyval.splits)

lemma count_result_well_typed: "well_typed f \<Longrightarrow> count_result sm f = Inr (add_counts sm [f])"
proof -
  assume "well_typed f"
  then obtain st sv where r: "get_upper f ''status'' = Inr st" "get_upper f ''severity'' = Inr sv"
    unfolding well_typed_def using get_upper_well_typed by blast
  show ?thesis
    by (simp add: count_result_def r status_read_def severity_read_def
        add_counts_def count_status_def count_severity_def Let_def)
qed

lemma count_result_ill_typed: "\<not> well_typed f \<Longrightarrow> count_result sm f = Inl AttributeError"
  by (auto simp: well_typed_def str_or_absent_def count_result_def get_upper_def
      split: option.splits pyval.splits sum.splits)

lemma add_counts_Cons: "add_counts (add_counts sm [f]) b = add_counts sm (f # b)"
  by (simp add: add_counts_def count_status_def count_severity_def)

lemma add_counts_Nil: "add_counts sm [] = sm"
  by (simp add: add_counts_def count_status_def count_severity_def)

lemma count_results_well_typed:
  "list_all well_typed b \<Longrightarrow> count_results sm b = (None, add_counts sm b)"
proof (induction b arbitrary: sm)
  case Nil
  show ?case by (simp add: add_counts_Nil)
next
  case (Cons f b)
  then show ?case by (simp add: count_result_well_typed add_counts_Cons)
qed

lemma count_results_error:
  "fst (count_results sm b) = (if list_all well_typed b then None else Some AttributeError)"
proof (induction b arbitrary: sm)
  case Nil
  show ?case by simp
next
  case (Cons f b)
  show ?case
  proof (cases "well_typed f")
    case True
    then show ?thesis by (simp add: count_result_well_typed Cons.IH)
  next
    case False
    then show ?thesis by (simp add: count_result_ill_typed)
  qed
qed

lemma count_result_total: "count_result sm f = Inr sm' \<Longrightarrow> total_tests sm' = total_tests sm"
  by (auto simp: count_result_def Let_def split: sum.splits if_splits)

lemma count_results_total: "total_tests (snd (count_results sm b)) = total_tests sm"
proof (induction b arbitrary: sm)
  case Nil
  show ?case by simp
next
  case (Cons f b)
  show ?case
  proof (cases "count_result sm f")
    case (Inl e)
    then show ?thesis by simp
  next
    case (Inr sm')
    then show ?thesis by (simp add: Cons.IH count_result_total)
  qed
qed



section \<open>The append operation\<close>

lemma add_results_results:
  "list_objs (snd (add_results self (List_of b) h)) (results self) = list_objs h (results self) @ b"
  by (simp add: add_results_def Let_def split: prod.splits)

lemma add_results_own_results:
  "list_objs (snd (add_results self Session_results h)) (results self)
     = list_objs h (results self) @ list_objs h (results self)"
  by (simp add: add_results_def Let_def split: prod.splits)

lemma add_results_dict:
  "dict_objs (snd (add_results self (List_of b) h)) (summary self) =
     snd (count_results ((dict_objs h (summary self))
       \<lparr>total_tests := total_tests (dict_objs h (summary self)) + int (length b)\<rparr>) b)"
  by (simp add: add_results_def Let_def split: prod.splits)

lemma add_results_own_dict:
  "dict_objs (snd (add_results self Session_results h)) (summary self) =
     snd (count_results ((dict_objs h (summary self))
       \<lparr>total_tests := total_tests (dict_objs h (summary self))
           + int (length (list_objs h (results self) @ list_objs h (results self)))\<rparr>)
       (list_objs h (results self) @ list_objs h (results self)))"
  by (simp add: add_results_def Let_def split: prod.splits)

lemma add_results_error:
  "fst (add_results self (List_of b) h) = (if list_all well_typed b then None else Some AttributeError)"
  using count_results_error
  by (simp add: add_results_def Let_def split: prod.splits) (metis fst_conv)

lemma add_results_summary:
  "list_all well_typed b \<Longrightarrow>
   dict_objs (snd (add_results self (List_of b) h)) (summary self) =
     add_counts ((dict_objs h (summary self))
       \<lparr>total_tests := total_tests (dict_objs h (summary self)) + int (length b)\<rparr>) b"
  by (simp add: add_results_dict count_results_well_typed)

lemma add_results_total:
  "total_tests (dict_objs (snd (add_results self (List_of b) h)) (summary self))
     = total_tests (dict_objs h (summary self)) + int (length b)"
  by (simp add: add_results_dict count_results_total)



lemma summary_of_append:
  "add_counts ((summary_of rs)\<lparr>total_tests := total_tests (summary_of rs) + int (length b)\<rparr>) b
     = summary_of (rs @ b)"
  by (simp add: add_counts_def summary_of_def count_status_def count_severity_def)

lemma add_results_consistent:
  "consistent self h \<Longrightarrow> list_all well_typed b \<Longrightarrow>
   consistent self (snd (add_results self (List_of b) h))"
  by (simp add: consistent_def add_results_summary add_results_results summary_of_append)

lemma add_results_calls_consistent:
  "consistent self h \<Longrightarrow> list_all (list_all well_typed) bs \<Longrightarrow>
   consistent self (add_results_calls self (map List_of bs) h)"
  by (induction bs arbitrary: h) (simp_all add: add_results_consistent)

lemma add_results_calls_results:
  "list_objs (add_results_calls self (map List_of bs) h) (results self)
     = list_objs h (results self) @ concat bs"
  by (induction bs arbitrary: h) (simp_all add: add_results_results)

lemma add_results_calls_total:
  "total_tests (dict_objs (add_results_calls self (map List_of bs) h) (summary self))
     = total_tests (dict_objs h (summary self)) + int (length (concat bs))"
  by (induction bs arbitrary: h) (simp_all add: add_results_total)

lemma init_objects:
  "ScanSession_init url sid t1 t2 h0 = (self, h) \<Longrightarrow>
   dict_objs h (summary self) = initial_summary \<and> list_objs h (results self) = []"
  by (auto simp: ScanSession_init_def new_list_def new_dict_def)

lemma summary_of_Nil: "summary_of [] = initial_summary"
  by (simp add: summary_of_def initial_summary_def count_status_def count_severity_def)

lemma init_consistent: "ScanSession_init url sid t1 t2 h0 = (self, h) \<Longrightarrow> consistent self h"
  by (simp add: consistent_def init_objects summary_of_Nil)


lemma data_model_well_typed: "data_model_finding f \<Longrightarrow> well_typed f"
  by (auto simp: data_model_finding_def well_typed_def str_or_absent_def)

lemma upper_vocabulary:
  "upper ''VULNERABLE'' = ''VULNERABLE''" "upper ''PASSED'' = ''PASSED''"
  "upper ''INFO'' = ''INFO''" "upper ''ERROR'' = ''ERROR''"
  "upper ''CRITICAL'' = ''CRITICAL''" "upper ''HIGH'' = ''HIGH''"
  "upper ''MEDIUM'' = ''MEDIUM''" "upper ''LOW'' = ''LOW''"
  by (simp_all add: upper_def upper_char_def)

lemma data_model_status:
  assumes "data_model_finding f" "st \<noteq> []"
  shows "status_read f = Inr st \<longleftrightarrow> f ''status'' = Some (PyStr st)"
proof -
  have "f ''status'' \<in> {None, Some (PyStr ''VULNERABLE''), Some (PyStr ''PASSED''),
                      Some (PyStr ''INFO''), Some (PyStr ''ERROR'')}"
    using assms(1) by (simp add: data_model_finding_def)
  then show ?thesis
    using assms(2)
    by (auto simp: status_read_def get_upper_def upper_vocabulary upper_Nil)
qed

lemma data_model_severity:
  assumes "data_model_finding f" "sv \<noteq> []"
  shows "severity_read f = Inr sv \<longleftrightarrow> f ''severity'' = Some (PyStr sv)"
proof -
  have "f ''severity'' \<in> {None, Some (PyStr ''CRITICAL''), Some (PyStr ''HIGH''),
                        Some (PyStr ''MEDIUM''), Some (PyStr ''LOW''), Some (PyStr ''INFO'')}"
    using assms(1) by (simp add: data_model_finding_def)
  then show ?thesis
    using assms(2)
    by (auto simp: severity_read_def get_upper_def upper_vocabulary upper_Nil)
qed

lemma count_status_data_model:
  "list_all data_model_finding rs \<Longrightarrow> st \<noteq> [] \<Longrightarrow> count_status st rs = spec_count_status st rs"
  unfolding count_status_def spec_count_status_def
  by (simp add: data_model_status list_all_iff cong: filter_cong)

lemma count_severity_data_model:
  "list_all data_model_finding rs \<Longrightarrow> sv \<noteq> [] \<Longrightarrow>
   count_severity sv rs = spec_count_severity sv rs"
  unfolding count_severity_def spec_count_severity_def
  by (simp add: data_model_status data_model_severity list_all_iff cong: filter_cong)

lemma summary_of_data_model: "list_all data_model_finding rs \<Longrightarrow> summary_of rs = spec_summary rs"
  by (simp add: summary_of_def spec_summary_def count_status_data_model count_severity_data_model)

lemma list_all_concat: "list_all (list_all P) bs \<Longrightarrow> list_all P (concat bs)"
  by (induction bs) simp_all

lemma list_all_mono_data_model:
  "list_all (list_all data_model_finding) bs \<Longrightarrow> list_all (list_all well_typed) bs"
  by (auto simp: list_all_iff data_model_well_typed)





lemma demo_init:
  "ScanSession_init ''https://api.example.com'' None t_first t_first empty_heap
     = (demo_session, demo_heap)"
  by (simp add: demo_session_def demo_heap_def)

lemma status_read_examples:
  "status_read passed_finding = Inr ''PASSED''"
  "status_read vulnerable_high_finding = Inr ''VULNERABLE''"
  "status_read vulnerable_info_finding = Inr ''VULNERABLE''"
  "status_read error_finding = Inr ''ERROR''"
  "status_read passed_no_severity_finding = Inr ''PASSED''"
  by (simp_all add: status_read_def get_upper_def upper_vocabulary passed_finding_def
      vulnerable_high_finding_def vulnerable_info_finding_def error_finding_def
      passed_no_severity_finding_def)

lemma severity_read_examples:
  "severity_read passed_finding = Inr []"
  "severity_read vulnerable_high_finding = Inr ''HIGH''"
  "severity_read vulnerable_info_finding = Inr ''INFO''"
  "severity_read error_finding = Inr []"
  "severity_read passed_no_severity_finding = Inl AttributeError"
  by (simp_all add: severity_read_def get_upper_def upper_vocabulary upper_Nil passed_finding_def
      vulnerable_high_finding_def vulnerable_info_finding_def error_finding_def
      passed_no_severity_finding_def)

lemma data_model_examples:
  "data_model_finding passed_finding" "data_model_finding vulnerable_high_finding"
  "data_model_finding vulnerable_info_finding" "data_model_finding error_finding"
  by (simp_all add: data_model_finding_def passed_finding_def
      vulnerable_high_finding_def vulnerable_info_finding_def error_finding_def)

lemma well_typed_examples:
  "well_typed passed_finding" "well_typed vulnerable_high_finding"
  "well_typed vulnerable_info_finding" "well_typed error_finding"
  "\<not> well_typed passed_no_severity_finding"
  by (simp_all add: well_typed_def str_or_absent_def passed_finding_def
      vulnerable_high_finding_def vulnerable_info_finding_def error_finding_def
      passed_no_severity_finding_def)

section \<open>The session and its summary\<close>

text \<open>
  Claim C1, as the code has it.  Take a session as its constructor makes it and any
  sequence of \<open>add_results\<close> calls whose arguments are lists other than the session's own
  result list.  After the calls the result list is the concatenation of the batches and
  \<open>total_tests\<close> is its length.  When moreover the status and the severity of every
  finding are strings or missing, the summary is the one recomputed from the result list
  alone, each counter being the number of findings of that status (for the severities: of
  the VULNERABLE findings of that severity) as the scanner reads them, in upper case; for
  findings in the data model's form it is the summary counted by plain equality.
\<close>

theorem add_results_summary_recomputable:
  assumes "ScanSession_init url sid now_id now_start h0 = (self, h1)"
  shows "list_objs (add_results_calls self (map List_of batches) h1) (results self)
       = concat batches
   \<and> total_tests (dict_objs (add_results_calls self (map List_of batches) h1) (summary self))
       = int (length (list_objs (add_results_calls self (map List_of batches) h1)
                        (results self)))
   \<and> (list_all (list_all well_typed) batches \<longrightarrow>
        dict_objs (add_results_calls self (map List_of batches) h1) (summary self)
          = summary_of (list_objs (add_results_calls self (map List_of batches) h1)
                          (results self)))
   \<and> (list_all (list_all data_model_finding) batches \<longrightarrow>
        dict_objs (add_results_calls self (map List_of batches) h1) (summary self)
          = spec_summary (list_objs (add_results_calls self (map List_of batches) h1)
                            (results self)))"
proof -
  define h where "h = add_results_calls self (map List_of batches) h1"
  have rs: "list_objs h (results self) = concat batches"
    unfolding h_def using init_objects [OF assms] by (simp add: add_results_calls_results)
  have tot: "total_tests (dict_objs h (summary self)) = int (length (list_objs h (results self)))"
    unfolding rs unfolding h_def
    using init_objects [OF assms] by (simp add: add_results_calls_total initial_summary_def)
  have wt: "list_all (list_all well_typed) batches \<longrightarrow>
      dict_objs h (summary self) = summary_of (list_objs h (results self))"
  proof
    assume "list_all (list_all well_typed) batches"
    with init_consistent [OF assms] have "consistent self h"
      unfolding h_def by (rule add_results_calls_consistent)
    then show "dict_objs h (summary self) = summary_of (list_objs h (results self))"
      by (simp add: consistent_def)
  qed
  have dm: "list_all (list_all data_model_finding) batches \<longrightarrow>
      dict_objs h (summary self) = spec_summary (list_objs h (results self))"
  proof
    assume a: "list_all (list_all data_model_finding) batches"
    then have "list_all (list_all well_typed) batches" by (rule list_all_mono_data_model)
    with wt have "dict_objs h (summary self) = summary_of (list_objs h (results self))" by blast
    moreover have "list_all data_model_finding (concat batches)"
      using a by (rule list_all_concat)
    ultimately show "dict_objs h (summary self) = spec_summary (list_objs h (results self))"
      by (simp add: rs summary_of_data_model)
  qed
  from rs tot wt dm show ?thesis unfolding h_def by blast
qed

theorem add_results_summary_recomputable_witness:
  "ScanSession_init ''https://api.example.com'' None t_first t_first empty_heap
     = (demo_session, demo_heap)
   \<and> list_all (list_all well_typed) [[passed_finding], [vulnerable_high_finding]]
   \<and> list_all (list_all data_model_finding) [[passed_finding], [vulnerable_high_finding]]
   \<and> list_objs (add_results_calls demo_session
        (map List_of [[passed_finding], [vulnerable_high_finding]]) demo_heap)
        (results demo_session) = [passed_finding, vulnerable_high_finding]
   \<and> dict_objs (add_results_calls demo_session
        (map List_of [[passed_finding], [vulnerable_high_finding]]) demo_heap)
        (summary demo_session)
       = \<lparr>total_tests = 2, vulnerabilities_found = 1, critical = 0, high = 1,
          medium = 0, low = 0, info = 0, passed = 1\<rparr>"
proof -
  have sm: "summary_of [passed_finding, vulnerable_high_finding]
       = \<lparr>total_tests = 2, vulnerabilities_found = 1, critical = 0, high = 1,
          medium = 0, low = 0, info = 0, passed = 1\<rparr>"
    by (simp add: summary_of_def count_status_def count_severity_def
        status_read_examples severity_read_examples)
  have ty: "list_all (list_all well_typed) [[passed_finding], [vulnerable_high_finding]]"
    "list_all (list_all data_model_finding) [[passed_finding], [vulnerable_high_finding]]"
    by (simp_all add: well_typed_examples data_model_examples)
  from add_results_summary_recomputable [OF demo_init,
      of "[[passed_finding], [vulnerable_high_finding]]"] ty
  have "list_objs (add_results_calls demo_session
        (map List_of [[passed_finding], [vulnerable_high_finding]]) demo_heap)
        (results demo_session) = concat [[passed_finding], [vulnerable_high_finding]]"
    and "dict_objs (add_results_calls demo_session
        (map List_of [[passed_finding], [vulnerable_high_finding]]) demo_heap)
        (summary demo_session)
       = summary_of (list_objs (add_results_calls demo_session
        (map List_of [[passed_finding], [vulnerable_high_finding]]) demo_heap)
        (results demo_session))"
    by blast+
  then show ?thesis
    using ty by (simp only: demo_init sm concat.simps append.simps)
qed

theorem add_results_summary_counterexample:
  "fst (add_results demo_session (List_of [passed_no_severity_finding]) demo_heap)
     = Some AttributeError
   \<and> list_objs (snd (add_results demo_session (List_of [passed_no_severity_finding]) demo_heap))
        (results demo_session) = [passed_no_severity_finding]
   \<and> passed_no_severity_finding ''status'' = Some (PyStr ''PASSED'')
   \<and> spec_count_status ''PASSED'' [passed_no_severity_finding] = 1
   \<and> passed (dict_objs (snd (add_results demo_session (List_of [passed_no_severity_finding])
        demo_heap)) (summary demo_session)) = 0
   \<and> length (list_objs (add_results_calls demo_session
        [List_of [passed_finding], Session_results] demo_heap) (results demo_session)) = 2
   \<and> total_tests (dict_objs (add_results_calls demo_session
        [List_of [passed_finding], Session_results] demo_heap) (summary demo_session)) = 3"
proof -
  note io = init_objects [OF demo_init]
  have a: "fst (add_results demo_session (List_of [passed_no_severity_finding]) demo_heap)
     = Some AttributeError"
    by (simp add: add_results_error well_typed_examples)
  have b: "list_objs (snd (add_results demo_session (List_of [passed_no_severity_finding])
        demo_heap)) (results demo_session) = [passed_no_severity_finding]"
    by (simp add: add_results_results io)
  have c: "passed_no_severity_finding ''status'' = Some (PyStr ''PASSED'')"
    "spec_count_status ''PASSED'' [passed_no_severity_finding] = 1"
    by (simp_all add: spec_count_status_def passed_no_severity_finding_def)
  have cr: "count_result sm passed_no_severity_finding = Inl AttributeError" for sm
    by (simp add: count_result_ill_typed well_typed_examples)
  have d: "passed (dict_objs (snd (add_results demo_session (List_of [passed_no_severity_finding])
        demo_heap)) (summary demo_session)) = 0"
    by (simp add: add_results_dict cr io initial_summary_def)
  have r1: "list_objs (snd (add_results demo_session (List_of [passed_finding]) demo_heap))
        (results demo_session) = [passed_finding]"
    by (simp add: add_results_results io)
  have t1: "total_tests (dict_objs (snd (add_results demo_session (List_of [passed_finding])
        demo_heap)) (summary demo_session)) = 1"
    by (simp add: add_results_total io initial_summary_def)
  have e: "length (list_objs (add_results_calls demo_session
        [List_of [passed_finding], Session_results] demo_heap) (results demo_session)) = 2"
    by (simp add: add_results_own_results r1)
  have f: "total_tests (dict_objs (add_results_calls demo_session
        [List_of [passed_finding], Session_results] demo_heap) (summary demo_session)) = 3"
    by (simp add: add_results_own_dict count_results_total r1 t1 del: count_results.simps)
  from a b c d e f show ?thesis by blast
qed



text \<open>
  Claim C4, as the code has it.  \<open>finalize\<close> has no failure: on any session, finalized or
  not, it returns the session with \<open>end_time\<close> set to the current clock reading and every
  other attribute as it was.  A second call therefore replaces the first call's
  \<open>end_time\<close>.
\<close>

theorem finalize_sets_end_time:
  "end_time (finalize now self) = Some now
   \<and> finalize now2 (finalize now1 self) = finalize now2 self
   \<and> scan_id (finalize now self) = scan_id self
   \<and> target_url (finalize now self) = target_url self
   \<and> start_time (finalize now self) = start_time self
   \<and> results (finalize now self) = results self
   \<and> summary (finalize now self) = summary self"
  by (simp add: finalize_def)

theorem finalize_twice_counterexample:
  "end_time (finalize t_first demo_session) = Some t_first
   \<and> end_time (finalize t_later (finalize t_first demo_session)) = Some t_later
   \<and> end_time (finalize t_later (finalize t_first demo_session))
       \<noteq> end_time (finalize t_first demo_session)"
  by (simp add: finalize_def t_first_def t_later_def)

text \<open>
  Claim C5, as the code has it.  \<open>add_results\<close> does not look at \<open>end_time\<close>: on a finalized
  session it does what it does on the session before \<open>finalize\<close>, whatever its argument.
  It appends the batch to the result list, raises \<open>total_tests\<close> by the length of the
  batch, and counts the batch into the summary, fully when it can read every finding.
  Neither operation clears \<open>end_time\<close>: \<open>finalize\<close> sets it and \<open>add_results\<close> writes no
  attribute of the session.
\<close>

theorem add_results_after_finalize:
  "add_results (finalize now self) arg h = add_results self arg h
   \<and> list_objs (snd (add_results (finalize now self) (List_of b) h)) (results self)
       = list_objs h (results self) @ b
   \<and> total_tests (dict_objs (snd (add_results (finalize now self) (List_of b) h))
        (summary self)) = total_tests (dict_objs h (summary self)) + int (length b)
   \<and> (list_all well_typed b \<longrightarrow>
        fst (add_results (finalize now self) (List_of b) h) = None
        \<and> dict_objs (snd (add_results (finalize now self) (List_of b) h)) (summary self)
          = add_counts ((dict_objs h (summary self))
              \<lparr>total_tests := total_tests (dict_objs h (summary self)) + int (length b)\<rparr>) b)
   \<and> end_time (finalize now2 (finalize now self)) \<noteq> None"
proof -
  have same: "add_results (finalize now self) a h = add_results self a h" for a
    by (cases a) (simp_all add: add_results_def finalize_def)
  show ?thesis
    unfolding same
    by (simp add: add_results_results add_results_total add_results_error add_results_summary
        finalize_def)
qed

theorem add_results_after_finalize_witness:
  "list_all well_typed [passed_finding]
   \<and> fst (add_results (finalize t_later demo_session) (List_of [passed_finding]) demo_heap)
       = None
   \<and> add_results (finalize t_later demo_session) (List_of [passed_finding]) demo_heap
       = add_results demo_session (List_of [passed_finding]) demo_heap
   \<and> list_objs (snd (add_results (finalize t_later demo_session) (List_of [passed_finding])
        demo_heap)) (results demo_session) = [passed_finding]"
  using add_results_after_finalize [of t_later demo_session "List_of [passed_finding]"
      demo_heap "[passed_finding]" t_later] init_objects [OF demo_init]
  by (simp add: well_typed_examples add_results_error add_results_results)

theorem add_results_after_finalize_counterexample:
  "end_time (finalize t_later demo_session) = Some t_later
   \<and> fst (add_results (finalize t_later demo_session) (List_of [passed_finding]) demo_heap)
       = None
   \<and> list_objs demo_heap (results (finalize t_later demo_session)) = []
   \<and> list_objs (snd (add_results (finalize t_later demo_session) (List_of [passed_finding])
        demo_heap)) (results (finalize t_later demo_session)) = [passed_finding]
   \<and> total_tests (dict_objs demo_heap (summary (finalize t_later demo_session))) = 0
   \<and> total_tests (dict_objs (snd (add_results (finalize t_later demo_session)
        (List_of [passed_finding]) demo_heap)) (summary (finalize t_later demo_session))) = 1"
proof -
  have f: "results (finalize t_later demo_session) = results demo_session"
    "summary (finalize t_later demo_session) = summary demo_session"
    "add_results (finalize t_later demo_session) (List_of [passed_finding]) demo_heap
       = add_results demo_session (List_of [passed_finding]) demo_heap"
    "end_time (finalize t_later demo_session) = Some t_later"
    by (simp_all add: finalize_def add_results_def)
  show ?thesis
    unfolding f using init_objects [OF demo_init]
    by (simp add: add_results_results add_results_total add_results_error well_typed_examples
        initial_summary_def)
qed

text \<open>
  Claim C6, as the code has it.  The dict that \<open>to_dict\<close> returns holds the scan id, the
  target, the start time, the end time and the duration as values computed at the call,
  and holds the session's own summary dict and result list.  A later \<open>add_results\<close> is
  therefore seen through a snapshot taken before it: the snapshot's results are the
  earlier ones followed by the batch, and its summary is the session's current summary.
  A later \<open>finalize\<close> writes neither object; a snapshot taken after it differs from the
  earlier one in the end time and the duration only, which the earlier one keeps as they
  were when it was taken.
\<close>

theorem to_dict_shares_results_and_summary:
  "read_results (to_dict self) (snd (add_results self (List_of b) h))
     = read_results (to_dict self) h @ b
   \<and> read_summary (to_dict self) (snd (add_results self arg h))
       = dict_objs (snd (add_results self arg h)) (summary self)
   \<and> total_tests (read_summary (to_dict self) (snd (add_results self (List_of b) h)))
       = total_tests (read_summary (to_dict self) h) + int (length b)
   \<and> snap_results (to_dict self) = results self
   \<and> snap_summary (to_dict self) = summary self
   \<and> to_dict (finalize now self)
       = (to_dict self)\<lparr>snap_end_time := Some now,
                         snap_duration := Elapsed (start_time self) now\<rparr>
   \<and> snap_end_time (to_dict self) = end_time self
   \<and> snap_duration (to_dict self) = get_duration self
   \<and> snap_scan_id (to_dict self) = scan_id self
   \<and> snap_target_url (to_dict self) = target_url self
   \<and> snap_start_time (to_dict self) = start_time self"
  by (simp add: read_results_def read_summary_def to_dict_def add_results_results
      add_results_total finalize_def get_duration_def)

theorem to_dict_snapshot_counterexample:
  "read_results (to_dict demo_session) demo_heap = []
   \<and> read_results (to_dict demo_session)
        (snd (add_results demo_session (List_of [passed_finding]) demo_heap))
       = [passed_finding]
   \<and> total_tests (read_summary (to_dict demo_session) demo_heap) = 0
   \<and> total_tests (read_summary (to_dict demo_session)
        (snd (add_results demo_session (List_of [passed_finding]) demo_heap))) = 1"
  using init_objects [OF demo_init]
  by (simp add: read_results_def read_summary_def to_dict_def add_results_results
      add_results_total initial_summary_def)

section \<open>Running the selected tests\<close>







lemma run_test_markup_error:
  assumes "init_raises t = None" "prints renders (Running (name t))"
    "run t url hs = Raises m" "\<not> prints renders (Error_msg (TestException m))"
  shows "run_test renders s url hs t h = (Some MarkupError, h, [Running (name t)])"
  using assms by (simp add: run_test_def handle_exception_def)
































section \<open>The scan id\<close>

lemma digit_eq_iff: "digit a = digit b \<longleftrightarrow> a mod 10 = b mod 10"
proof -
  have d: "distinct ''0123456789''" by simp
  have "a mod 10 < length ''0123456789''" "b mod 10 < length ''0123456789''" by simp_all
  with d show ?thesis
    unfolding digit_def by (simp only: nth_eq_iff_index_eq)
qed

lemma decimal_step: "(a::nat) div 10 = b div 10 \<Longrightarrow> a mod 10 = b mod 10 \<Longrightarrow> a = b"
  by (metis div_mult_mod_eq)

lemma pad2_eq_iff:
  assumes "a < 100" "b < 100"
  shows "pad2 a = pad2 b \<longleftrightarrow> a = b"
proof
  assume "pad2 a = pad2 b"
  then have d1: "a div 10 mod 10 = b div 10 mod 10" and d0: "a mod 10 = b mod 10"
    by (simp_all add: pad2_def digit_eq_iff)
  have "a div 10 < 10" "b div 10 < 10" using assms by simp_all
  with d1 have "a div 10 = b div 10" by simp
  with d0 show "a = b" by (rule decimal_step [rotated])
next
  assume "a = b"
  then show "pad2 a = pad2 b" by simp
qed

lemma pad4_eq_iff:
  assumes "a < 10000" "b < 10000"
  shows "pad4 a = pad4 b \<longleftrightarrow> a = b"
proof
  assume "pad4 a = pad4 b"
  then have d3: "a div 1000 mod 10 = b div 1000 mod 10"
    and d2: "a div 100 mod 10 = b div 100 mod 10"
    and d1: "a div 10 mod 10 = b div 10 mod 10"
    and d0: "a mod 10 = b mod 10"
    by (simp_all add: pad4_def digit_eq_iff)
  have "a div 1000 < 10" "b div 1000 < 10" using assms by simp_all
  with d3 have e3: "a div 1000 = b div 1000" by simp
  have "a div 100 div 10 = a div 1000" "b div 100 div 10 = b div 1000"
    by (simp_all add: div_mult2_eq [symmetric])
  with e3 have "a div 100 div 10 = b div 100 div 10" by simp
  then have e2: "a div 100 = b div 100" using d2 by (rule decimal_step)
  have "a div 10 div 10 = a div 100" "b div 10 div 10 = b div 100"
    by (simp_all add: div_mult2_eq [symmetric])
  with e2 have "a div 10 div 10 = b div 10 div 10" by simp
  then have e1: "a div 10 = b div 10" using d1 by (rule decimal_step)
  then show "a = b" using d0 by (rule decimal_step)
next
  assume "a = b"
  then show "pad4 a = pad4 b" by simp
qed

lemma strftime_id_eq_iff:
  assumes "valid_datetime a" "valid_datetime b"
  shows "strftime_id a = strftime_id b \<longleftrightarrow> same_second a b"
proof -
  have l: "length (pad4 (year a)) = length (pad4 (year b))"
    "length (pad2 (month a)) = length (pad2 (month b))"
    "length (pad2 (day a)) = length (pad2 (day b))"
    "length (pad2 (hour a)) = length (pad2 (hour b))"
    "length (pad2 (minute a)) = length (pad2 (minute b))"
    by (simp_all add: pad2_def pad4_def)
  have "strftime_id a = strftime_id b \<longleftrightarrow>
      pad4 (year a) = pad4 (year b) \<and> pad2 (month a) = pad2 (month b) \<and>
      pad2 (day a) = pad2 (day b) \<and> pad2 (hour a) = pad2 (hour b) \<and>
      pad2 (minute a) = pad2 (minute b) \<and> pad2 (second a) = pad2 (second b)"
    unfolding strftime_id_def by (simp add: l)
  also have "\<dots> \<longleftrightarrow> same_second a b"
    using assms by (simp add: valid_datetime_def same_second_def pad2_eq_iff pad4_eq_iff)
  finally show ?thesis .
qed

lemma init_scan_id:
  "scan_id (fst (ScanSession_init url sid now_id now_start h))
     = (case sid of None \<Rightarrow> strftime_id now_id
        | Some s \<Rightarrow> if s = [] then strftime_id now_id else s)"
  by (simp add: ScanSession_init_def new_list_def new_dict_def Let_def split: prod.splits)

text \<open>
  Claim C9, as the code has it.  The scan id of a session is the caller's id when one is
  given and not empty, and otherwise the text \<open>YYYYMMDD_HHMMSS\<close> of the clock reading at
  creation, which drops the microseconds.  Two sessions created without an id of their own
  have the same scan id exactly when their creation times agree in every field from the
  year down to the second.
\<close>

theorem scan_id_from_creation_second:
  "scan_id (fst (ScanSession_init url (Some sid) now_id now_start h))
     = (if sid = [] then strftime_id now_id else sid)
   \<and> scan_id (fst (ScanSession_init url None now_id now_start h)) = strftime_id now_id
   \<and> (valid_datetime a \<and> valid_datetime b \<longrightarrow>
        (scan_id (fst (ScanSession_init url_a None a start_a h_a))
           = scan_id (fst (ScanSession_init url_b None b start_b h_b))
         \<longleftrightarrow> same_second a b))"
  by (simp add: init_scan_id strftime_id_eq_iff)

lemma demo_times:
  "valid_datetime t_first" "valid_datetime t_later" "\<not> same_second t_first t_later"
  "strftime_id t_first = ''20240309_070501''" "strftime_id t_later = ''20240309_070542''"
  "strftime_id t_same_second = ''20240309_070501''"
  "microsecond t_first \<noteq> microsecond t_same_second"
  by (simp_all add: valid_datetime_def same_second_def strftime_id_def pad2_def pad4_def
      digit_def t_first_def t_later_def t_same_second_def)

theorem scan_id_from_creation_second_witness:
  "valid_datetime t_first \<and> valid_datetime t_later \<and> \<not> same_second t_first t_later
   \<and> scan_id (fst (ScanSession_init ''https://a.example'' None t_first t_first empty_heap))
       = ''20240309_070501''
   \<and> scan_id (fst (ScanSession_init ''https://b.example'' None t_later t_later demo_heap))
       = ''20240309_070542''
   \<and> scan_id (fst (ScanSession_init ''https://a.example'' None t_first t_first empty_heap))
       \<noteq> scan_id (fst (ScanSession_init ''https://b.example'' None t_later t_later demo_heap))"
  using scan_id_from_creation_second [where a = t_first and b = t_later
      and url = "''https://a.example''" and sid = "''x''" and now_id = t_first
      and now_start = t_first and h = empty_heap
      and url_a = "''https://a.example''" and start_a = t_first and h_a = empty_heap
      and url_b = "''https://b.example''" and start_b = t_later and h_b = demo_heap]
  by (simp add: demo_times init_scan_id)

theorem scan_id_same_second_counterexample:
  "microsecond t_first \<noteq> microsecond t_same_second
   \<and> scan_id (fst (ScanSession_init ''https://a.example'' None t_first t_first empty_heap))
       = ''20240309_070501''
   \<and> scan_id (fst (ScanSession_init ''https://b.example'' None t_same_second t_same_second
        demo_heap)) = ''20240309_070501''
   \<and> scan_id (fst (ScanSession_init ''https://a.example'' None t_first t_first empty_heap))
       = scan_id (fst (ScanSession_init ''https://b.example'' None t_same_second t_same_second
           demo_heap))"
  by (simp add: init_scan_id demo_times)

end
